theory Spec2Isabelle
  imports Complex_Main "HOL-Library.Product_Lexorder"
begin

section \<open>Finance tracker backend: a shallow embedding of app.py\<close>

text \<open>
  The handlers of \<^verbatim>\<open>app.py\<close> are modelled as pure functions. The document store and
  the clock are explicit arguments, the store is returned updated by every write, an
  exception is a value of type \<open>exc\<close>, and the \<^verbatim>\<open>try/except\<close> blocks of the
  source are case distinctions on it. Strings are ASCII character lists.
\<close>

subsection \<open>Python strings\<close>

datatype exc =
  ValueError | TypeError | AttributeError | KeyError | ZeroDivisionError | OverflowError

text \<open>\<^verbatim>\<open>str.isspace\<close> on the ASCII range: tab, LF, VT, FF, CR, FS, GS, RS, US and space.\<close>

definition is_space :: "char \<Rightarrow> bool" where
  "is_space c = (of_char c \<in> {9::nat, 10, 11, 12, 13, 28, 29, 30, 31, 32})"

definition strip :: "string \<Rightarrow> string" where
  "strip s = rev (dropWhile is_space (rev (dropWhile is_space s)))"

text \<open>
  The conversions \<^verbatim>\<open>int\<close> and \<^verbatim>\<open>float\<close> skip a smaller set around the number:
  tab, LF, VT, FF, CR and space.
\<close>

definition is_num_space :: "char \<Rightarrow> bool" where
  "is_num_space c = (of_char c \<in> {9::nat, 10, 11, 12, 13, 32})"

definition num_strip :: "string \<Rightarrow> string" where
  "num_strip s = rev (dropWhile is_num_space (rev (dropWhile is_num_space s)))"

text \<open>\<^verbatim>\<open>s.split(sep)\<close> for a one-character separator: always at least one component.\<close>

fun split_on :: "char \<Rightarrow> string \<Rightarrow> string list" where
  "split_on sep [] = [[]]"
| "split_on sep (c # cs) =
     (if c = sep then [] # split_on sep cs
      else (case split_on sep cs of
              [] \<Rightarrow> [[c]]
            | w # ws \<Rightarrow> (c # w) # ws))"

definition startswith :: "string \<Rightarrow> string \<Rightarrow> bool" where
  "startswith s p = (take (length p) s = p)"

text \<open>\<^verbatim>\<open>sub in s\<close> for strings: \<open>sub\<close> occurs as a contiguous block.\<close>

fun str_contains :: "string \<Rightarrow> string \<Rightarrow> bool" where
  "str_contains [] sub = (sub = [])"
| "str_contains (c # cs) sub = (startswith (c # cs) sub \<or> str_contains cs sub)"

definition is_digit :: "char \<Rightarrow> bool" where
  "is_digit c = (48 \<le> (of_char c :: nat) \<and> (of_char c :: nat) \<le> 57)"

definition digit_val :: "char \<Rightarrow> nat" where
  "digit_val c = of_char c - 48"

text \<open>
  A digit part of Python's numeric grammar: digits, with single underscores allowed
  between two digits. The result is the list of digits, or None.
\<close>

fun digitpart_from :: "string \<Rightarrow> nat list option" where
  "digitpart_from [] = Some []"
| "digitpart_from (c # cs) =
     (if is_digit c then map_option (\<lambda>ds. digit_val c # ds) (digitpart_from cs)
      else if c = CHR ''_'' then
        (case cs of
           [] \<Rightarrow> None
         | d # _ \<Rightarrow> if is_digit d then digitpart_from cs else None)
      else None)"

definition digitpart :: "string \<Rightarrow> nat list option" where
  "digitpart s =
     (case s of
        [] \<Rightarrow> None
      | c # _ \<Rightarrow> if is_digit c then digitpart_from s else None)"

definition digits_val :: "nat list \<Rightarrow> int" where
  "digits_val ds = foldl (\<lambda>acc d. 10 * acc + int d) 0 ds"

text \<open>\<^verbatim>\<open>int(s)\<close> in base 10: surrounding whitespace, an optional sign, a digit part.\<close>

definition py_int :: "string \<Rightarrow> exc + int" where
  "py_int s =
     (let t = num_strip s;
          (neg, body) = (case t of
                           [] \<Rightarrow> (False, [])
                         | c # cs \<Rightarrow> if c = CHR ''-'' then (True, cs)
                                    else if c = CHR ''+'' then (False, cs)
                                    else (False, t))
      in case digitpart body of
           None \<Rightarrow> Inl ValueError
         | Some ds \<Rightarrow> Inr (if neg then - digits_val ds else digits_val ds))"

subsection \<open>Calendar and datetime\<close>

record datetime =
  dt_year :: int
  dt_month :: int
  dt_day :: int
  dt_hour :: int
  dt_minute :: int
  dt_second :: int

definition dt_key :: "datetime \<Rightarrow> int \<times> int \<times> int \<times> int \<times> int \<times> int" where
  "dt_key d = (dt_year d, dt_month d, dt_day d, dt_hour d, dt_minute d, dt_second d)"

definition dt_le :: "datetime \<Rightarrow> datetime \<Rightarrow> bool" where
  "dt_le a b = (dt_key a \<le> dt_key b)"

text \<open>\<^verbatim>\<open>calendar.isleap\<close> and the table \<^verbatim>\<open>calendar.mdays\<close>.\<close>

definition isleap :: "int \<Rightarrow> bool" where
  "isleap y = (y mod 4 = 0 \<and> (y mod 100 \<noteq> 0 \<or> y mod 400 = 0))"

definition mdays :: "int list" where
  "mdays = [0, 31, 28, 31, 30, 31, 30, 31, 31, 30, 31, 30, 31]"

text \<open>
  \<^verbatim>\<open>calendar.monthrange(year, month)[1]\<close>: the month must be in 1..12
  (IllegalMonthError is a ValueError).
\<close>

definition monthrange_days :: "int \<Rightarrow> int \<Rightarrow> exc + int" where
  "monthrange_days y m =
     (if 1 \<le> m \<and> m \<le> 12
      then Inr (mdays ! nat m + (if m = 2 \<and> isleap y then 1 else 0))
      else Inl ValueError)"

text \<open>
  The constructor \<^verbatim>\<open>datetime(year, month, day, hour, minute, second)\<close>. Its arguments
  are converted to C integers first: OverflowError outside the 32-bit range. Then
  ValueError outside year 1..9999, month 1..12, day 1..length of the month, hour 0..23,
  minute and second 0..59.
\<close>

definition c_int :: "int \<Rightarrow> bool" where
  "c_int n = (- (2 ^ 31) \<le> n \<and> n < 2 ^ 31)"

definition mk_datetime :: "int \<Rightarrow> int \<Rightarrow> int \<Rightarrow> int \<Rightarrow> int \<Rightarrow> int \<Rightarrow> exc + datetime" where
  "mk_datetime y m d h mi s =
     (if \<not> list_all c_int [y, m, d, h, mi, s] then Inl OverflowError
      else if 1 \<le> y \<and> y \<le> 9999 \<and> 1 \<le> m \<and> m \<le> 12
         \<and> 1 \<le> d \<and> d \<le> mdays ! nat m + (if m = 2 \<and> isleap y then 1 else 0)
         \<and> 0 \<le> h \<and> h \<le> 23 \<and> 0 \<le> mi \<and> mi \<le> 59 \<and> 0 \<le> s \<and> s \<le> 59
      then Inr \<lparr>dt_year = y, dt_month = m, dt_day = d,
                dt_hour = h, dt_minute = mi, dt_second = s\<rparr>
      else Inl ValueError)"

text \<open>
  \<^verbatim>\<open>get_month_range\<close>: the two components are converted by \<^verbatim>\<open>int\<close>, the unpacking
  into \<^verbatim>\<open>year, month\<close> needs exactly two of them, and a ValueError gives
  \<^verbatim>\<open>(None, None)\<close>, here None. Any other exception leaves the function.
\<close>

definition get_month_range :: "string \<Rightarrow> exc + (datetime \<times> datetime) option" where
  "get_month_range month_str =
     (case split_on CHR ''-'' month_str of
        [ys, ms] \<Rightarrow>
          (case (py_int ys, py_int ms) of
             (Inr year, Inr month) \<Rightarrow>
               (case
                  (case mk_datetime year month 1 0 0 0 of
                     Inl e \<Rightarrow> Inl e
                   | Inr start_date \<Rightarrow>
                       (case monthrange_days year month of
                          Inl e \<Rightarrow> Inl e
                        | Inr last_day \<Rightarrow>
                            (case mk_datetime year month last_day 23 59 59 of
                               Inl e \<Rightarrow> Inl e
                             | Inr end_date \<Rightarrow> Inr (start_date, end_date))))
                of
                  Inl e \<Rightarrow> if e = ValueError then Inr None else Inl e
                | Inr bounds \<Rightarrow> Inr (Some bounds))
           | _ \<Rightarrow> Inr None)
      | _ \<Rightarrow> Inr None)"

text \<open>
  The calendar as the specification words it: the length of a month of the Gregorian
  calendar, written independently of the table used by the code.
\<close>

definition spec_leap_year :: "int \<Rightarrow> bool" where
  "spec_leap_year y = (if 400 dvd y then True else if 100 dvd y then False else 4 dvd y)"

definition spec_month_length :: "int \<Rightarrow> int \<Rightarrow> int" where
  "spec_month_length y m =
     (if m \<in> {1, 3, 5, 7, 8, 10, 12} then 31
      else if m \<in> {4, 6, 9, 11} then 30
      else if spec_leap_year y then 29 else 28)"

subsection \<open>Python numbers\<close>

text \<open>
  A Python float is an IEEE 754 double. It is modelled by its value: a rational number
  that a double can hold, or one of the three special values. An operation on finite
  values computes the exact result and rounds it to the nearest double, a tie going to
  the even significand, as the hardware does; \<open>to_double\<close> is that rounding: the
  value is \<open>m * 2^e\<close> with a significand \<open>m\<close> of at most 53 bits, the exponent \<open>e\<close> is
  never below \<open>-1074\<close> (the subnormal range), and a rounded value of \<open>2^1024\<close> or more
  is infinity. The two zeros of a double are one value here: they compare equal and
  a division by either raises.
\<close>

datatype pyfloat = Fin rat | PInf | NInf | NaN

definition round_half_even :: "rat \<Rightarrow> int" where
  "round_half_even x =
     (let f = \<lfloor>x\<rfloor>; d = x - of_int f
      in if d < 1 / 2 then f
         else if d > 1 / 2 then f + 1
         else if even f then f else f + 1)"

text \<open>The number of binary digits of a positive integer.\<close>

function bitlen :: "int \<Rightarrow> int" where
  "bitlen n = (if n \<le> 0 then 0 else 1 + bitlen (n div 2))"
  by pat_completeness auto
termination
  by (relation "measure nat") auto

declare bitlen.simps [simp del]

text \<open>For \<open>a > 0\<close>, the integer \<open>k\<close> with \<open>2^k \<le> a < 2^(k+1)\<close>.\<close>

definition ilog2 :: "rat \<Rightarrow> int" where
  "ilog2 a =
     (if 1 \<le> a then bitlen \<lfloor>a\<rfloor> - 1
      else (let k = bitlen \<lfloor>1 / a\<rfloor> - 1
            in if 1 / a = 2 ^ nat k then - k else - k - 1))"

definition scale2 :: "rat \<Rightarrow> int \<Rightarrow> rat" where
  "scale2 x e = (if 0 \<le> e then x * 2 ^ nat e else x / 2 ^ nat (- e))"

definition to_double :: "rat \<Rightarrow> pyfloat" where
  "to_double x =
     (if x = 0 then Fin 0
      else
        (let a = \<bar>x\<bar>;
             e = max (ilog2 a - 52) (- 1074);
             m = round_half_even (scale2 a (- e))
         in if 971 < e \<or> (e = 971 \<and> 2 ^ 53 \<le> m) then (if 0 < x then PInf else NInf)
            else Fin (if 0 < x then scale2 (of_int m) e else - scale2 (of_int m) e)))"

fun pneg :: "pyfloat \<Rightarrow> pyfloat" where
  "pneg (Fin a) = Fin (- a)"
| "pneg PInf = NInf"
| "pneg NInf = PInf"
| "pneg NaN = NaN"

fun padd :: "pyfloat \<Rightarrow> pyfloat \<Rightarrow> pyfloat" where
  "padd NaN _ = NaN"
| "padd _ NaN = NaN"
| "padd (Fin a) (Fin b) = to_double (a + b)"
| "padd PInf NInf = NaN"
| "padd NInf PInf = NaN"
| "padd PInf _ = PInf"
| "padd _ PInf = PInf"
| "padd NInf _ = NInf"
| "padd _ NInf = NInf"

definition psub :: "pyfloat \<Rightarrow> pyfloat \<Rightarrow> pyfloat" where
  "psub a b = padd a (pneg b)"

fun psign :: "pyfloat \<Rightarrow> int" where
  "psign (Fin a) = (if a < 0 then -1 else if a = 0 then 0 else 1)"
| "psign PInf = 1"
| "psign NInf = -1"
| "psign NaN = 0"

fun pmul :: "pyfloat \<Rightarrow> pyfloat \<Rightarrow> pyfloat" where
  "pmul NaN _ = NaN"
| "pmul _ NaN = NaN"
| "pmul (Fin a) (Fin b) = to_double (a * b)"
| "pmul a b =
     (if psign a * psign b = 0 then NaN
      else if psign a * psign b > 0 then PInf else NInf)"

text \<open>Float division raises ZeroDivisionError for a zero divisor, whatever the dividend.\<close>

definition pdiv :: "pyfloat \<Rightarrow> pyfloat \<Rightarrow> exc + pyfloat" where
  "pdiv a b =
     (case b of
        Fin y \<Rightarrow>
          (if y = 0 then Inl ZeroDivisionError
           else (case a of
                   Fin x \<Rightarrow> Inr (to_double (x / y))
                 | PInf \<Rightarrow> Inr (if y > 0 then PInf else NInf)
                 | NInf \<Rightarrow> Inr (if y > 0 then NInf else PInf)
                 | NaN \<Rightarrow> Inr NaN))
      | NaN \<Rightarrow> Inr NaN
      | _ \<Rightarrow> (case a of Fin x \<Rightarrow> Inr (Fin 0) | _ \<Rightarrow> Inr NaN))"

text \<open>Comparisons: every comparison with NaN is false.\<close>

fun plt :: "pyfloat \<Rightarrow> pyfloat \<Rightarrow> bool" where
  "plt NaN _ = False"
| "plt _ NaN = False"
| "plt (Fin a) (Fin b) = (a < b)"
| "plt _ NInf = False"
| "plt NInf _ = True"
| "plt PInf _ = False"
| "plt _ PInf = True"

definition peq :: "pyfloat \<Rightarrow> pyfloat \<Rightarrow> bool" where
  "peq a b = (a \<noteq> NaN \<and> a = b)"

definition ple :: "pyfloat \<Rightarrow> pyfloat \<Rightarrow> bool" where
  "ple a b = (plt a b \<or> peq a b)"

definition pgt :: "pyfloat \<Rightarrow> pyfloat \<Rightarrow> bool" where
  "pgt a b = plt b a"

definition pge :: "pyfloat \<Rightarrow> pyfloat \<Rightarrow> bool" where
  "pge a b = ple b a"

text \<open>
  \<^verbatim>\<open>sum(...)\<close> starts from 0 and adds the items from the left, each addition rounding
  (the summation of CPython up to 3.11; later versions compensate the rounding errors
  of a float sum).
\<close>

definition psum :: "pyfloat list \<Rightarrow> pyfloat" where
  "psum xs = foldl padd (Fin 0) xs"

text \<open>
  \<^verbatim>\<open>round(x, 2)\<close>: the multiple of 1/100 closest to the value of the double, a tie
  going to the even multiple, then the double closest to it; a value that is not finite
  is returned as it is.
\<close>

fun pround2 :: "pyfloat \<Rightarrow> pyfloat" where
  "pround2 (Fin x) = to_double (of_int (round_half_even (x * 100)) / 100)"
| "pround2 a = a"

text \<open>
  \<^verbatim>\<open>float(s)\<close> for a string, after Python's grammar: surrounding whitespace, an optional
  sign, then \<^verbatim>\<open>inf\<close>, \<^verbatim>\<open>infinity\<close> or \<^verbatim>\<open>nan\<close> in any case, or a decimal number with
  an optional fraction and exponent, rounded to the nearest double.
\<close>

definition to_lower :: "char \<Rightarrow> char" where
  "to_lower c =
     (if 65 \<le> (of_char c :: nat) \<and> (of_char c :: nat) \<le> 90
      then char_of (of_char c + (32::nat)) else c)"

fun split_exponent :: "string \<Rightarrow> string \<times> string option" where
  "split_exponent [] = ([], None)"
| "split_exponent (c # cs) =
     (if c = CHR ''e'' then ([], Some cs)
      else (case split_exponent cs of (m, e) \<Rightarrow> (c # m, e)))"

definition opt_digitpart :: "string \<Rightarrow> nat list option" where
  "opt_digitpart s = (if s = [] then Some [] else digitpart s)"

text \<open>The mantissa: its digits and the number of digits after the point.\<close>

definition parse_mantissa :: "string \<Rightarrow> (nat list \<times> nat) option" where
  "parse_mantissa s =
     (case split_on CHR ''.'' s of
        [ip] \<Rightarrow> map_option (\<lambda>ds. (ds, 0)) (digitpart ip)
      | [ip, fp] \<Rightarrow>
          (if ip = [] \<and> fp = [] then None
           else (case (opt_digitpart ip, opt_digitpart fp) of
                   (Some ds, Some fs) \<Rightarrow> Some (ds @ fs, length fs)
                 | _ \<Rightarrow> None))
      | _ \<Rightarrow> None)"

definition parse_exponent :: "string option \<Rightarrow> int option" where
  "parse_exponent e =
     (case e of
        None \<Rightarrow> Some 0
      | Some s \<Rightarrow>
          (let (neg, body) = (case s of
                                [] \<Rightarrow> (False, [])
                              | c # cs \<Rightarrow> if c = CHR ''-'' then (True, cs)
                                         else if c = CHR ''+'' then (False, cs)
                                         else (False, s))
           in map_option (\<lambda>ds. if neg then - digits_val ds else digits_val ds)
                (digitpart body)))"

definition scale10 :: "rat \<Rightarrow> int \<Rightarrow> rat" where
  "scale10 x e = (if 0 \<le> e then x * 10 ^ nat e else x / 10 ^ nat (- e))"

definition float_of_str :: "string \<Rightarrow> exc + pyfloat" where
  "float_of_str s =
     (let t = map to_lower (num_strip s);
          (neg, body) = (case t of
                           [] \<Rightarrow> (False, [])
                         | c # cs \<Rightarrow> if c = CHR ''-'' then (True, cs)
                                    else if c = CHR ''+'' then (False, cs)
                                    else (False, t))
      in if body = ''inf'' \<or> body = ''infinity'' then Inr (if neg then NInf else PInf)
         else if body = ''nan'' then Inr NaN
         else (case split_exponent body of
                 (m, e) \<Rightarrow>
                   (case (parse_mantissa m, parse_exponent e) of
                      (Some (ds, k), Some ex) \<Rightarrow>
                        Inr (to_double (scale10 (if neg then - of_int (digits_val ds)
                                                 else of_int (digits_val ds)) (ex - int k)))
                    | _ \<Rightarrow> Inl ValueError)))"

subsection \<open>JSON request bodies\<close>

text \<open>
  The value returned by \<^verbatim>\<open>request.get_json()\<close>. A number written without fraction
  or exponent is a Python integer, any other number a float. An object is a list of
  members in the order of the text; a repeated key takes its last value, as
  \<^verbatim>\<open>json.loads\<close> does.
\<close>

datatype json =
    JNull
  | JBool bool
  | JInt int
  | JFloat pyfloat
  | JStr string
  | JArr "json list"
  | JObj "(string \<times> json) list"

definition obj_get :: "(string \<times> json) list \<Rightarrow> string \<Rightarrow> json option" where
  "obj_get kvs k = map_of (rev kvs) k"

text \<open>Truth value of a Python object, as tested by \<^verbatim>\<open>not x\<close>.\<close>

fun py_truthy :: "json \<Rightarrow> bool" where
  "py_truthy JNull = False"
| "py_truthy (JBool b) = b"
| "py_truthy (JInt n) = (n \<noteq> 0)"
| "py_truthy (JFloat x) = (x \<noteq> Fin 0)"
| "py_truthy (JStr s) = (s \<noteq> [])"
| "py_truthy (JArr xs) = (xs \<noteq> [])"
| "py_truthy (JObj kvs) = (kvs \<noteq> [])"

text \<open>\<^verbatim>\<open>field in data\<close>: a key of a dict, an element of a list, a substring of a string.\<close>

fun py_in :: "string \<Rightarrow> json \<Rightarrow> exc + bool" where
  "py_in k (JObj kvs) = Inr (obj_get kvs k \<noteq> None)"
| "py_in k (JArr xs) = Inr (JStr k \<in> set xs)"
| "py_in k (JStr s) = Inr (str_contains s k)"
| "py_in k _ = Inl TypeError"

text \<open>\<^verbatim>\<open>data[field]\<close> with a string index.\<close>

fun py_getitem :: "json \<Rightarrow> string \<Rightarrow> exc + json" where
  "py_getitem (JObj kvs) k = (case obj_get kvs k of None \<Rightarrow> Inl KeyError | Some v \<Rightarrow> Inr v)"
| "py_getitem _ k = Inl TypeError"

text \<open>\<^verbatim>\<open>data.get(field, default)\<close>: only a dict has the method.\<close>

fun py_get :: "json \<Rightarrow> string \<Rightarrow> json \<Rightarrow> exc + json" where
  "py_get (JObj kvs) k dflt = (case obj_get kvs k of None \<Rightarrow> Inr dflt | Some v \<Rightarrow> Inr v)"
| "py_get _ k dflt = Inl AttributeError"

text \<open>\<^verbatim>\<open>x.strip()\<close>: only a string has the method.\<close>

fun py_strip :: "json \<Rightarrow> exc + string" where
  "py_strip (JStr s) = Inr (strip s)"
| "py_strip _ = Inl AttributeError"

text \<open>
  \<^verbatim>\<open>float(x)\<close>. An integer is rounded to the nearest double; one that is too large for
  a double raises OverflowError.
\<close>

fun py_float :: "json \<Rightarrow> exc + pyfloat" where
  "py_float (JFloat x) = Inr x"
| "py_float (JInt n) =
     (case to_double (of_int n) of
        Fin v \<Rightarrow> Inr (Fin v)
      | _ \<Rightarrow> Inl OverflowError)"
| "py_float (JBool b) = Inr (Fin (if b then 1 else 0))"
| "py_float (JStr s) = float_of_str s"
| "py_float _ = Inl TypeError"

subsection \<open>Parsing a date\<close>

text \<open>
  \<^verbatim>\<open>datetime.strptime(s, '%Y-%m-%d')\<close>: the whole string must match four digits, a
  month \<^verbatim>\<open>1[0-2]|0[1-9]|[1-9]\<close> and a day \<^verbatim>\<open>3[0-1]|[1-2]\d|0[1-9]|[1-9]| [1-9]\<close>,
  separated by dashes, and the three numbers must name a day of the calendar.
\<close>

definition strp_year :: "string \<Rightarrow> int option" where
  "strp_year s =
     (if length s = 4 \<and> list_all is_digit s
      then Some (digits_val (map digit_val s)) else None)"

definition strp_month :: "string \<Rightarrow> int option" where
  "strp_month s =
     (case s of
        [a] \<Rightarrow> if is_digit a \<and> a \<noteq> CHR ''0'' then Some (int (digit_val a)) else None
      | [a, b] \<Rightarrow>
          if a = CHR ''1'' \<and> b \<in> {CHR ''0'', CHR ''1'', CHR ''2''} then Some (10 + int (digit_val b))
          else if a = CHR ''0'' \<and> is_digit b \<and> b \<noteq> CHR ''0'' then Some (int (digit_val b))
          else None
      | _ \<Rightarrow> None)"

definition strp_day :: "string \<Rightarrow> int option" where
  "strp_day s =
     (case s of
        [a] \<Rightarrow> if is_digit a \<and> a \<noteq> CHR ''0'' then Some (int (digit_val a)) else None
      | [a, b] \<Rightarrow>
          if a = CHR ''3'' \<and> b \<in> {CHR ''0'', CHR ''1''} then Some (30 + int (digit_val b))
          else if a \<in> {CHR ''1'', CHR ''2''} \<and> is_digit b
            then Some (10 * int (digit_val a) + int (digit_val b))
          else if a \<in> {CHR ''0'', CHR '' ''} \<and> is_digit b \<and> b \<noteq> CHR ''0''
            then Some (int (digit_val b))
          else None
      | _ \<Rightarrow> None)"

definition strptime_ymd :: "string \<Rightarrow> exc + datetime" where
  "strptime_ymd s =
     (case split_on CHR ''-'' s of
        [ys, ms, ds] \<Rightarrow>
          (case (strp_year ys, strp_month ms, strp_day ds) of
             (Some y, Some m, Some d) \<Rightarrow> mk_datetime y m d 0 0 0
           | _ \<Rightarrow> Inl ValueError)
      | _ \<Rightarrow> Inl ValueError)"

text \<open>
  \<^verbatim>\<open>parse_date\<close> catches ValueError only; an argument that is not a string makes
  \<^verbatim>\<open>strptime\<close> raise TypeError, which leaves the function.
\<close>

fun parse_date :: "json \<Rightarrow> exc + datetime option" where
  "parse_date (JStr s) =
     (case strptime_ymd s of
        Inr d \<Rightarrow> Inr (Some d)
      | Inl e \<Rightarrow> if e = ValueError then Inr None else Inl e)"
| "parse_date _ = Inl TypeError"

subsection \<open>The document store\<close>

text \<open>
  A document is a dictionary; the fields the code reads with a default
  (\<^verbatim>\<open>.get('amount', 0)\<close>) or tests for presence may be absent, so every field is
  optional. Each user has a collection of budgets and one of expenses.
\<close>

record budget_doc =
  b_id :: string
  b_amount :: "pyfloat option"
  b_month :: "string option"
  b_category :: "string option"
  b_created_at :: "datetime option"
  b_updated_at :: "datetime option"

record expense_doc =
  e_id :: string
  e_amount :: "pyfloat option"
  e_category :: "string option"
  e_date :: "datetime option"
  e_note :: "string option"
  e_created_at :: "datetime option"
  e_updated_at :: "datetime option"

record user_data =
  budgets :: "budget_doc list"
  expenses :: "expense_doc list"

type_synonym db = "string \<Rightarrow> user_data"

text \<open>The queries of the handlers: equality on a field, a closed range on the date.\<close>

definition budgets_where_month :: "string \<Rightarrow> budget_doc list \<Rightarrow> budget_doc list" where
  "budgets_where_month month bs = filter (\<lambda>b. b_month b = Some month) bs"

definition budgets_where_month_category ::
  "string \<Rightarrow> string \<Rightarrow> budget_doc list \<Rightarrow> budget_doc list" where
  "budgets_where_month_category month category bs =
     filter (\<lambda>b. b_category b = Some category) (budgets_where_month month bs)"

definition in_range :: "datetime \<Rightarrow> datetime \<Rightarrow> expense_doc \<Rightarrow> bool" where
  "in_range start_date end_date e =
     (case e_date e of
        None \<Rightarrow> False
      | Some d \<Rightarrow> dt_le start_date d \<and> dt_le d end_date)"

definition expenses_in_range :: "datetime \<Rightarrow> datetime \<Rightarrow> expense_doc list \<Rightarrow> expense_doc list" where
  "expenses_in_range start_date end_date es = filter (in_range start_date end_date) es"

subsection \<open>Responses and control flow\<close>

record summary =
  sm_month :: string
  sm_total_expenses :: pyfloat
  sm_total_budget :: pyfloat
  sm_remaining_budget :: pyfloat
  sm_budget_usage_percent :: pyfloat
  sm_budget_status :: string
  sm_expense_count :: nat
  sm_budget_count :: nat

record cat_entry =
  ce_total_amount :: pyfloat
  ce_count :: nat
  ce_budget :: pyfloat
  ce_over_budget :: bool
  ce_percentage :: pyfloat

record pie_slice =
  pie_name :: string
  pie_value :: pyfloat
  pie_percentage :: pyfloat

record bar_item =
  bar_category :: string
  bar_expenses :: pyfloat
  bar_budget :: pyfloat
  bar_over_budget :: bool

record report =
  rp_month :: string
  rp_expenses_by_category :: "(string \<times> cat_entry) list"
  rp_top_spending_category :: "(string \<times> pyfloat) option"
  rp_over_budget_categories_count :: nat
  rp_total_expenses :: pyfloat
  rp_total_categories :: nat
  rp_pie_chart_data :: "pie_slice list"
  rp_bar_chart_data :: "bar_item list"

text \<open>
  The body of a response. \<open>ErrorExc\<close> is an error message that ends with the text of the
  exception caught. Dates and timestamps are kept as values; their rendering as text is
  not modelled.
\<close>

datatype payload =
    Error string
  | ErrorExc string exc
  | Message string
  | BudgetCreated budget_doc
  | BudgetUpdated budget_doc
  | ExpenseAdded expense_doc
  | ExpenseList "expense_doc list" string nat
  | SummaryBody summary
  | ReportBody report

type_synonym response = "nat \<times> payload"

text \<open>
  A block of a handler raises, returns a response early, or goes on with a value.
\<close>

datatype 'a step = Raise exc | Respond response | Continue 'a

fun step_bind :: "'a step \<Rightarrow> ('a \<Rightarrow> 'b step) \<Rightarrow> 'b step" where
  "step_bind (Raise e) f = Raise e"
| "step_bind (Respond r) f = Respond r"
| "step_bind (Continue x) f = f x"

fun lift_exc :: "exc + 'a \<Rightarrow> 'a step" where
  "lift_exc (Inl e) = Raise e"
| "lift_exc (Inr x) = Continue x"

subsection \<open>The auth gate\<close>

text \<open>
  The identity provider is a parameter: \<open>verify_id_token\<close> returns the claims of a token
  or raises. \<^verbatim>\<open>verify_firebase_token\<close> turns every exception into None.
\<close>

record claims =
  uid :: string

definition verify_firebase_token :: "(string \<Rightarrow> 'e + claims) \<Rightarrow> string \<Rightarrow> claims option" where
  "verify_firebase_token verify_id_token token =
     (let token' = (if startswith token ''Bearer '' then drop 7 token else token)
      in case verify_id_token token' of
           Inl _ \<Rightarrow> None
         | Inr decoded_token \<Rightarrow> Some decoded_token)"

record request =
  rq_authorization :: "string option"
  rq_user_id :: "string option"
  rq_user :: "claims option"

text \<open>
  \<^verbatim>\<open>require_auth\<close>: \<open>rq_authorization\<close> is the Authorization header, \<open>rq_user_id\<close> the
  keyword argument \<^verbatim>\<open>user_id\<close> of the route, \<open>rq_user\<close> the attribute \<^verbatim>\<open>request.user\<close>.
  The wrapped handler \<open>f\<close> runs on the request and the store.
\<close>

definition require_auth ::
  "(string \<Rightarrow> 'e + claims) \<Rightarrow> (request \<Rightarrow> 's \<Rightarrow> response \<times> 's) \<Rightarrow> request \<Rightarrow> 's \<Rightarrow> response \<times> 's" where
  "require_auth verify_id_token f req st =
     (case rq_authorization req of
        None \<Rightarrow> ((401, Error ''Authorization header missing''), st)
      | Some auth_header \<Rightarrow>
          if auth_header = [] then ((401, Error ''Authorization header missing''), st)
          else (case verify_firebase_token verify_id_token auth_header of
                  None \<Rightarrow> ((401, Error ''Invalid or expired token''), st)
                | Some decoded_token \<Rightarrow>
                    if (case rq_user_id req of
                          None \<Rightarrow> False
                        | Some user_id \<Rightarrow> user_id \<noteq> [] \<and> user_id \<noteq> uid decoded_token)
                    then ((403, Error ''Unauthorized access to user data''), st)
                    else f (req\<lparr>rq_user := Some decoded_token\<rparr>) st))"

subsection \<open>Validation\<close>

text \<open>The loop over the required fields of \<^verbatim>\<open>set_budget\<close>: present and true.\<close>

fun require_truthy :: "json \<Rightarrow> string list \<Rightarrow> unit step" where
  "require_truthy data [] = Continue ()"
| "require_truthy data (field # rest) =
     (case py_in field data of
        Inl e \<Rightarrow> Raise e
      | Inr present \<Rightarrow>
          if \<not> present then Respond (400, Error (''Missing required field: '' @ field))
          else (case py_getitem data field of
                  Inl e \<Rightarrow> Raise e
                | Inr v \<Rightarrow>
                    if \<not> py_truthy v
                    then Respond (400, Error (''Missing required field: '' @ field))
                    else require_truthy data rest))"

text \<open>The loop over the required fields of \<^verbatim>\<open>add_expense\<close>: present.\<close>

fun require_present :: "json \<Rightarrow> string list \<Rightarrow> unit step" where
  "require_present data [] = Continue ()"
| "require_present data (field # rest) =
     (case py_in field data of
        Inl e \<Rightarrow> Raise e
      | Inr present \<Rightarrow>
          if \<not> present then Respond (400, Error (''Missing required field: '' @ field))
          else require_present data rest)"

text \<open>
  The amount block, the same in the three write handlers: ValueError and TypeError are
  caught inside it.
\<close>

definition validate_amount :: "json \<Rightarrow> pyfloat step" where
  "validate_amount data =
     (case (case py_getitem data ''amount'' of Inl e \<Rightarrow> Inl e | Inr v \<Rightarrow> py_float v) of
        Inl e \<Rightarrow>
          if e = ValueError \<or> e = TypeError
          then Respond (400, Error ''Invalid amount format'')
          else Raise e
      | Inr amount \<Rightarrow>
          if ple amount (Fin 0) then Respond (400, Error ''Amount must be positive'')
          else Continue amount)"

definition validate_month :: "json \<Rightarrow> string step" where
  "validate_month data =
     step_bind (lift_exc (py_getitem data ''month'')) (\<lambda>v.
     step_bind (lift_exc (py_strip v)) (\<lambda>month.
       if month = [] \<or> length (split_on CHR ''-'' month) \<noteq> 2
       then Respond (400, Error ''Invalid month format. Use YYYY-MM'')
       else Continue month))"

definition validate_category :: "string \<Rightarrow> json \<Rightarrow> string step" where
  "validate_category msg data =
     step_bind (lift_exc (py_getitem data ''category'')) (\<lambda>v.
     step_bind (lift_exc (py_strip v)) (\<lambda>category.
       if category = [] then Respond (400, Error msg)
       else Continue category))"

subsection \<open>Budget routes\<close>

text \<open>
  \<open>now\<close> is the value of \<^verbatim>\<open>datetime.now()\<close> and \<open>new_id\<close> the identifier the store
  gives to the document it adds. The outer \<^verbatim>\<open>except Exception\<close> of each handler is
  the case \<open>Raise\<close>; the store is written on the last path only.
\<close>

definition set_budget :: "datetime \<Rightarrow> string \<Rightarrow> db \<Rightarrow> string \<Rightarrow> json \<Rightarrow> response \<times> db" where
  "set_budget now new_id db user_id data =
     (case
        (if \<not> py_truthy data then Respond (400, Error ''No data provided'')
         else
           step_bind (require_truthy data [''amount'', ''month'', ''category'']) (\<lambda>_.
           step_bind (validate_amount data) (\<lambda>amount.
           step_bind (validate_month data) (\<lambda>month.
           step_bind (validate_category ''Category is required'' data) (\<lambda>category.
             let existing_budgets =
                   budgets_where_month_category month category (budgets (db user_id))
             in if existing_budgets \<noteq> []
                then Respond (400, Error ''Budget already exists for this category and month'')
                else
                  let budget_data =
                        \<lparr>b_id = new_id, b_amount = Some amount, b_month = Some month,
                         b_category = Some category, b_created_at = Some now,
                         b_updated_at = Some now\<rparr>
                  in Continue
                       ((201, BudgetCreated budget_data),
                        db(user_id := (db user_id)
                             \<lparr>budgets := budgets (db user_id) @ [budget_data]\<rparr>)))))))
      of
        Raise e \<Rightarrow> ((500, ErrorExc ''Failed to set budget: '' e), db)
      | Respond r \<Rightarrow> (r, db)
      | Continue out \<Rightarrow> out)"

text \<open>A field of the partial update: validated only if the body has it.\<close>

definition if_present :: "string \<Rightarrow> json \<Rightarrow> 'a step \<Rightarrow> 'a option step" where
  "if_present field data validate =
     step_bind (lift_exc (py_in field data)) (\<lambda>present.
       if present then step_bind validate (\<lambda>x. Continue (Some x))
       else Continue None)"

definition apply_update ::
  "datetime \<Rightarrow> pyfloat option \<Rightarrow> string option \<Rightarrow> string option \<Rightarrow> budget_doc \<Rightarrow> budget_doc" where
  "apply_update now amount category month b =
     b\<lparr>b_updated_at := Some now,
       b_amount := (case amount of None \<Rightarrow> b_amount b | Some a \<Rightarrow> Some a),
       b_category := (case category of None \<Rightarrow> b_category b | Some c \<Rightarrow> Some c),
       b_month := (case month of None \<Rightarrow> b_month b | Some m \<Rightarrow> Some m)\<rparr>"

definition update_budget :: "datetime \<Rightarrow> db \<Rightarrow> string \<Rightarrow> string \<Rightarrow> json \<Rightarrow> response \<times> db" where
  "update_budget now db user_id budget_id data =
     (case
        (if \<not> py_truthy data then Respond (400, Error ''No data provided'')
         else
           (case find (\<lambda>b. b_id b = budget_id) (budgets (db user_id)) of
              None \<Rightarrow> Respond (404, Error ''Budget not found'')
            | Some budget_doc \<Rightarrow>
                step_bind (if_present ''amount'' data (validate_amount data)) (\<lambda>amount.
                step_bind (if_present ''category'' data
                             (validate_category ''Category cannot be empty'' data)) (\<lambda>category.
                step_bind (if_present ''month'' data (validate_month data)) (\<lambda>month.
                  let updated_data = apply_update now amount category month budget_doc
                  in Continue
                       ((200, BudgetUpdated updated_data),
                        db(user_id := (db user_id)
                             \<lparr>budgets :=
                                map (\<lambda>b. if b_id b = budget_id
                                         then apply_update now amount category month b else b)
                                  (budgets (db user_id))\<rparr>)))))))
      of
        Raise e \<Rightarrow> ((500, ErrorExc ''Failed to update budget: '' e), db)
      | Respond r \<Rightarrow> (r, db)
      | Continue out \<Rightarrow> out)"

definition delete_budget :: "db \<Rightarrow> string \<Rightarrow> string \<Rightarrow> response \<times> db" where
  "delete_budget db user_id budget_id =
     (case find (\<lambda>b. b_id b = budget_id) (budgets (db user_id)) of
        None \<Rightarrow> ((404, Error ''Budget not found''), db)
      | Some _ \<Rightarrow>
          ((200, Message ''Budget deleted successfully''),
           db(user_id := (db user_id)
                \<lparr>budgets := filter (\<lambda>b. b_id b \<noteq> budget_id) (budgets (db user_id))\<rparr>)))"

subsection \<open>Expense routes\<close>

text \<open>
  The expenses of a month, latest first. The store orders documents of one date by its own
  rule; here they keep the reverse of their order in the collection.
\<close>

definition order_by_date_desc :: "expense_doc list \<Rightarrow> expense_doc list" where
  "order_by_date_desc es =
     rev (sort_key (\<lambda>e. case e_date e of None \<Rightarrow> (0, 0, 0, 0, 0, 0) | Some d \<Rightarrow> dt_key d) es)"

text \<open>
  \<open>month_arg\<close> is the query parameter \<^verbatim>\<open>month\<close>, \<open>current_month\<close> the value of
  \<^verbatim>\<open>get_current_month()\<close>.
\<close>

definition get_expenses :: "db \<Rightarrow> string \<Rightarrow> string option \<Rightarrow> string \<Rightarrow> response" where
  "get_expenses db user_id month_arg current_month =
     (let month = (case month_arg of None \<Rightarrow> current_month | Some m \<Rightarrow> m)
      in case get_month_range month of
           Inl e \<Rightarrow> (500, Error ''Failed to retrieve expenses'')
         | Inr None \<Rightarrow> (400, Error ''Invalid month format. Use YYYY-MM'')
         | Inr (Some (start_date, end_date)) \<Rightarrow>
             (let expense_list =
                    order_by_date_desc
                      (expenses_in_range start_date end_date (expenses (db user_id)))
              in (200, ExpenseList expense_list month (length expense_list))))"

definition add_expense :: "datetime \<Rightarrow> string \<Rightarrow> db \<Rightarrow> string \<Rightarrow> json \<Rightarrow> response \<times> db" where
  "add_expense now new_id db user_id data =
     (case
        step_bind (require_present data [''amount'', ''category'', ''date'']) (\<lambda>_.
        step_bind (validate_amount data) (\<lambda>amount.
        step_bind (lift_exc (py_getitem data ''date'')) (\<lambda>date_string.
        step_bind (lift_exc (parse_date date_string)) (\<lambda>expense_date.
          if expense_date = None
          then Respond (400, Error ''Invalid date format. Use YYYY-MM-DD'')
          else
            step_bind (lift_exc (py_getitem data ''category'')) (\<lambda>c.
            step_bind (lift_exc (py_strip c)) (\<lambda>category.
            step_bind (lift_exc (py_get data ''note'' (JStr []))) (\<lambda>n.
            step_bind (lift_exc (py_strip n)) (\<lambda>note.
              let expense_data =
                    \<lparr>e_id = new_id, e_amount = Some amount, e_category = Some category,
                     e_date = expense_date, e_note = Some note,
                     e_created_at = Some now, e_updated_at = Some now\<rparr>
              in Continue
                   ((201, ExpenseAdded expense_data),
                    db(user_id := (db user_id)
                         \<lparr>expenses := expenses (db user_id) @ [expense_data]\<rparr>))))))))))
      of
        Raise e \<Rightarrow> ((500, Error ''Failed to add expense''), db)
      | Respond r \<Rightarrow> (r, db)
      | Continue out \<Rightarrow> out)"

subsection \<open>Analytics routes\<close>

definition amount_or_zero :: "pyfloat option \<Rightarrow> pyfloat" where
  "amount_or_zero a = (case a of None \<Rightarrow> Fin 0 | Some x \<Rightarrow> x)"

text \<open>The computation of \<^verbatim>\<open>get_summary\<close> on the documents the two queries return.\<close>

definition compute_summary :: "string \<Rightarrow> expense_doc list \<Rightarrow> budget_doc list \<Rightarrow> exc + summary" where
  "compute_summary month es bs =
     (let total_expenses = psum (map (\<lambda>e. amount_or_zero (e_amount e)) es);
          total_budget = psum (map (\<lambda>b. amount_or_zero (b_amount b)) bs);
          remaining_budget = psub total_budget total_expenses
      in case (if pgt total_budget (Fin 0)
               then map_sum id (\<lambda>q. pmul q (Fin 100)) (pdiv total_expenses total_budget)
               else Inr (Fin 0)) of
           Inl e \<Rightarrow> Inl e
         | Inr budget_usage_percent \<Rightarrow>
             (let budget_status =
                    (if peq total_budget (Fin 0) then ''no_budget''
                     else if pge remaining_budget (Fin 0) then ''under_budget''
                     else ''over_budget'')
              in Inr \<lparr>sm_month = month,
                      sm_total_expenses = pround2 total_expenses,
                      sm_total_budget = pround2 total_budget,
                      sm_remaining_budget = pround2 remaining_budget,
                      sm_budget_usage_percent = pround2 budget_usage_percent,
                      sm_budget_status = budget_status,
                      sm_expense_count = length es,
                      sm_budget_count = length bs\<rparr>))"

definition get_summary :: "db \<Rightarrow> string \<Rightarrow> string \<Rightarrow> response" where
  "get_summary db user_id month =
     (case get_month_range month of
        Inl e \<Rightarrow> (500, Error ''Failed to generate summary'')
      | Inr None \<Rightarrow> (400, Error ''Invalid month format. Use YYYY-MM'')
      | Inr (Some (start_date, end_date)) \<Rightarrow>
          (case compute_summary month
                  (expenses_in_range start_date end_date (expenses (db user_id)))
                  (budgets_where_month month (budgets (db user_id))) of
             Inl e \<Rightarrow> (500, Error ''Failed to generate summary'')
           | Inr sm \<Rightarrow> (200, SummaryBody sm)))"

text \<open>
  \<^verbatim>\<open>get_report\<close>. The budget lookup is a dictionary that is only read by key. The
  grouping dictionary is iterated, so it is a list of items in the order of insertion.
\<close>

definition budget_lookup_of :: "budget_doc list \<Rightarrow> (string \<rightharpoonup> pyfloat)" where
  "budget_lookup_of bs =
     foldl (\<lambda>lookup b.
              lookup((case b_category b of None \<Rightarrow> ''general'' | Some c \<Rightarrow> c)
                       \<mapsto> amount_or_zero (b_amount b)))
       Map.empty bs"

definition new_entry :: "pyfloat \<Rightarrow> cat_entry" where
  "new_entry budget =
     \<lparr>ce_total_amount = Fin 0, ce_count = 0, ce_budget = budget,
      ce_over_budget = False, ce_percentage = Fin 0\<rparr>"

fun dict_modify :: "string \<Rightarrow> (cat_entry \<Rightarrow> cat_entry) \<Rightarrow> (string \<times> cat_entry) list \<Rightarrow> (string \<times> cat_entry) list" where
  "dict_modify k f [] = []"
| "dict_modify k f ((k', v) # kvs) =
     (if k' = k then (k', f v) # kvs else (k', v) # dict_modify k f kvs)"

definition expense_category :: "expense_doc \<Rightarrow> string" where
  "expense_category e = (case e_category e of None \<Rightarrow> ''Other'' | Some c \<Rightarrow> c)"

text \<open>One round of the loop over the expenses: the dictionary and the running total.\<close>

definition group_step ::
  "(string \<rightharpoonup> pyfloat) \<Rightarrow> (string \<times> cat_entry) list \<times> pyfloat \<Rightarrow> expense_doc
     \<Rightarrow> (string \<times> cat_entry) list \<times> pyfloat" where
  "group_step budget_lookup acc e =
     (let category_expenses = fst acc;
          total_expenses = snd acc;
          category = expense_category e;
          amount = amount_or_zero (e_amount e);
          with_key =
            (if category \<in> set (map fst category_expenses) then category_expenses
             else category_expenses @
                    [(category,
                      new_entry (case budget_lookup category of None \<Rightarrow> Fin 0 | Some b \<Rightarrow> b))])
      in (dict_modify category
            (\<lambda>d. d\<lparr>ce_total_amount := padd (ce_total_amount d) amount,
                    ce_count := ce_count d + 1\<rparr>)
            with_key,
          padd total_expenses amount))"

definition group_expenses ::
  "(string \<rightharpoonup> pyfloat) \<Rightarrow> expense_doc list \<Rightarrow> (string \<times> cat_entry) list \<times> pyfloat" where
  "group_expenses budget_lookup es = foldl (group_step budget_lookup) ([], Fin 0) es"

text \<open>The variables of the loop over the categories.\<close>

record loop_state =
  ls_done :: "(string \<times> cat_entry) list"
  ls_top_category :: "string option"
  ls_top_amount :: pyfloat
  ls_over_budget_count :: nat
  ls_pie :: "pie_slice list"
  ls_bar :: "bar_item list"

definition category_step :: "pyfloat \<Rightarrow> loop_state \<Rightarrow> string \<times> cat_entry \<Rightarrow> exc + loop_state" where
  "category_step total_expenses st item =
     (let category = fst item; data = snd item
      in case (if pgt total_expenses (Fin 0)
               then map_sum id (\<lambda>q. pmul q (Fin 100)) (pdiv (ce_total_amount data) total_expenses)
               else Inr (Fin 0)) of
           Inl e \<Rightarrow> Inl e
         | Inr percentage \<Rightarrow>
             (let over = (pgt (ce_budget data) (Fin 0)
                          \<and> pgt (ce_total_amount data) (ce_budget data));
                  top = pgt (ce_total_amount data) (ls_top_amount st);
                  data' = data\<lparr>ce_over_budget := (if over then True else ce_over_budget data),
                               ce_total_amount := pround2 (ce_total_amount data),
                               ce_percentage := pround2 percentage\<rparr>
              in Inr \<lparr>ls_done = ls_done st @ [(category, data')],
                      ls_top_category = (if top then Some category else ls_top_category st),
                      ls_top_amount = (if top then ce_total_amount data else ls_top_amount st),
                      ls_over_budget_count =
                        (if over then ls_over_budget_count st + 1 else ls_over_budget_count st),
                      ls_pie = ls_pie st @
                        [\<lparr>pie_name = category, pie_value = ce_total_amount data',
                          pie_percentage = ce_percentage data'\<rparr>],
                      ls_bar = ls_bar st @
                        [\<lparr>bar_category = category, bar_expenses = ce_total_amount data',
                          bar_budget = ce_budget data',
                          bar_over_budget = ce_over_budget data'\<rparr>]\<rparr>))"

fun category_loop :: "pyfloat \<Rightarrow> loop_state \<Rightarrow> (string \<times> cat_entry) list \<Rightarrow> exc + loop_state" where
  "category_loop total_expenses st [] = Inr st"
| "category_loop total_expenses st (item # items) =
     (case category_step total_expenses st item of
        Inl e \<Rightarrow> Inl e
      | Inr st' \<Rightarrow> category_loop total_expenses st' items)"

text \<open>
  \<^verbatim>\<open>list.sort(key=..., reverse=True)\<close>: descending, items of equal key in their
  original order.
\<close>

fun insert_desc :: "('a \<Rightarrow> pyfloat) \<Rightarrow> 'a \<Rightarrow> 'a list \<Rightarrow> 'a list" where
  "insert_desc key x [] = [x]"
| "insert_desc key x (y # ys) =
     (if plt (key y) (key x) then x # y # ys else y # insert_desc key x ys)"

definition sort_desc :: "('a \<Rightarrow> pyfloat) \<Rightarrow> 'a list \<Rightarrow> 'a list" where
  "sort_desc key xs = foldl (\<lambda>acc x. insert_desc key x acc) [] xs"

definition compute_report :: "string \<Rightarrow> expense_doc list \<Rightarrow> budget_doc list \<Rightarrow> exc + report" where
  "compute_report month es bs =
     (let budget_lookup = budget_lookup_of bs;
          grouped = group_expenses budget_lookup es;
          total_expenses = snd grouped
      in case category_loop total_expenses
                \<lparr>ls_done = [], ls_top_category = None, ls_top_amount = Fin 0,
                 ls_over_budget_count = 0, ls_pie = [], ls_bar = []\<rparr>
                (fst grouped) of
           Inl e \<Rightarrow> Inl e
         | Inr st \<Rightarrow>
             Inr \<lparr>rp_month = month,
                  rp_expenses_by_category = ls_done st,
                  rp_top_spending_category =
                    (case ls_top_category st of
                       None \<Rightarrow> None
                     | Some c \<Rightarrow> if c = [] then None else Some (c, pround2 (ls_top_amount st))),
                  rp_over_budget_categories_count = ls_over_budget_count st,
                  rp_total_expenses = pround2 total_expenses,
                  rp_total_categories = length (ls_done st),
                  rp_pie_chart_data = sort_desc pie_value (ls_pie st),
                  rp_bar_chart_data = sort_desc bar_expenses (ls_bar st)\<rparr>)"

definition get_report :: "db \<Rightarrow> string \<Rightarrow> string \<Rightarrow> response" where
  "get_report db user_id month =
     (case get_month_range month of
        Inl e \<Rightarrow> (500, Error ''Failed to generate report'')
      | Inr None \<Rightarrow> (400, Error ''Invalid month format. Use YYYY-MM'')
      | Inr (Some (start_date, end_date)) \<Rightarrow>
          (case compute_report month
                  (expenses_in_range start_date end_date (expenses (db user_id)))
                  (budgets_where_month month (budgets (db user_id))) of
             Inl e \<Rightarrow> (500, Error ''Failed to generate report'')
           | Inr rp \<Rightarrow> (200, ReportBody rp)))"

subsection \<open>Example data\<close>

text \<open>
  A store with one user, \<^verbatim>\<open>alice\<close>, who has three expenses in January 2024 and one
  budget for that month; an identity provider that knows one token; a handler that counts
  its calls.
\<close>

definition demo_expense :: "string \<Rightarrow> string \<Rightarrow> rat \<Rightarrow> int \<Rightarrow> expense_doc" where
  "demo_expense ident category amount day =
     \<lparr>e_id = ident, e_amount = Some (Fin amount), e_category = Some category,
      e_date = Some \<lparr>dt_year = 2024, dt_month = 1, dt_day = day,
                       dt_hour = 0, dt_minute = 0, dt_second = 0\<rparr>,
      e_note = Some [], e_created_at = None, e_updated_at = None\<rparr>"

definition demo_budget :: "string \<Rightarrow> string \<Rightarrow> rat \<Rightarrow> budget_doc" where
  "demo_budget ident category amount =
     \<lparr>b_id = ident, b_amount = Some (Fin amount), b_month = Some ''2024-01'',
      b_category = Some category, b_created_at = None, b_updated_at = None\<rparr>"

definition demo_db :: db where
  "demo_db user_id =
     (if user_id = ''alice''
      then \<lparr>budgets = [demo_budget ''b1'' ''Food'' 40],
            expenses = [demo_expense ''e1'' ''Food'' 30 5,
                        demo_expense ''e2'' ''Food'' 20 17,
                        demo_expense ''e3'' ''Transport'' 25 31]\<rparr>
      else \<lparr>budgets = [], expenses = []\<rparr>)"

definition demo_verify :: "string \<Rightarrow> unit + claims" where
  "demo_verify token = (if token = ''good'' then Inr \<lparr>uid = ''alice''\<rparr> else Inl ())"

definition demo_handler :: "request \<Rightarrow> nat \<Rightarrow> response \<times> nat" where
  "demo_handler req st = ((200, Message (case rq_user req of None \<Rightarrow> [] | Some c \<Rightarrow> uid c)), st + 1)"

definition demo_now :: datetime where
  "demo_now = \<lparr>dt_year = 2024, dt_month = 3, dt_day = 20,
                dt_hour = 9, dt_minute = 30, dt_second = 0\<rparr>"

text \<open>The error messages of the write handlers that name the amount.\<close>

definition amount_messages :: "string set" where
  "amount_messages =
     {''Missing required field: amount'', ''Invalid amount format'', ''Amount must be positive''}"

definition duplicate_request :: json where
  "duplicate_request =
     JObj [(''amount'', JInt 50), (''month'', JStr '' 2024-01 ''),
           (''category'', JStr ''Food'')]"

definition bad_amount_request :: json where
  "bad_amount_request = JObj [(''amount'', JStr ''abc''), (''category'', JStr ''Food'')]"

definition zero_amount_request :: json where
  "zero_amount_request =
     JObj [(''amount'', JStr ''0.0''), (''month'', JStr ''2024-02''),
           (''category'', JStr ''Food''), (''date'', JStr ''2024-02-10'')]"


section \<open>Properties\<close>

subsection \<open>Month ranges\<close>

lemma split_on_no_sep: "sep \<notin> set s \<Longrightarrow> split_on sep s = [s]"
  by (induction s) auto

lemma split_on_append: "sep \<notin> set xs \<Longrightarrow> split_on sep (xs @ sep # rest) = xs # split_on sep rest"
  by (induction xs) auto

lemma split_on_two:
  "sep \<notin> set xs \<Longrightarrow> sep \<notin> set ys \<Longrightarrow> split_on sep (xs @ sep # ys) = [xs, ys]"
  by (simp add: split_on_append split_on_no_sep)

lemma isleap_spec: "isleap y = spec_leap_year y"
  unfolding isleap_def spec_leap_year_def by presburger

lemma month_cases:
  "1 \<le> m \<Longrightarrow> m \<le> 12 \<Longrightarrow>
   m = 1 \<or> m = 2 \<or> m = 3 \<or> m = 4 \<or> m = 5 \<or> m = 6 \<or> m = 7 \<or> m = 8 \<or> m = 9 \<or> m = 10 \<or> m = 11 \<or> m = (12::int)"
  by arith

lemma mdays_spec:
  assumes "1 \<le> m" "m \<le> 12"
  shows "mdays ! nat m + (if m = 2 \<and> isleap y then 1 else 0) = spec_month_length y m"
  using month_cases[OF assms]
  by (elim disjE) (simp_all add: mdays_def spec_month_length_def isleap_spec)

lemma spec_month_length_bounds: "28 \<le> spec_month_length y m \<and> spec_month_length y m \<le> 31"
  by (simp add: spec_month_length_def)

lemma get_month_range_parts:
  assumes "py_int ys = Inr y" "py_int ms = Inr m"
      and "CHR ''-'' \<notin> set ys" "CHR ''-'' \<notin> set ms"
      and "1 \<le> y" "y \<le> 9999" "1 \<le> m" "m \<le> 12"
  shows "get_month_range (ys @ ''-'' @ ms) =
           Inr (Some (\<lparr>dt_year = y, dt_month = m, dt_day = 1, dt_hour = 0, dt_minute = 0, dt_second = 0\<rparr>,
                 \<lparr>dt_year = y, dt_month = m, dt_day = spec_month_length y m,
                  dt_hour = 23, dt_minute = 59, dt_second = 59\<rparr>))"
proof -
  have sp: "split_on CHR ''-'' (ys @ ''-'' @ ms) = [ys, ms]"
    using assms(3,4) by (simp add: split_on_two)
  have len: "mdays ! nat m + (if m = 2 \<and> isleap y then 1 else 0) = spec_month_length y m"
    using assms(7,8) by (rule mdays_spec)
  have b: "28 \<le> spec_month_length y m" "spec_month_length y m \<le> 31"
    using spec_month_length_bounds by auto
  have s: "mk_datetime y m 1 0 0 0 = Inr \<lparr>dt_year = y, dt_month = m, dt_day = 1, dt_hour = 0, dt_minute = 0, dt_second = 0\<rparr>"
    using assms(5-8) b len by (simp add: mk_datetime_def c_int_def)
  have l: "monthrange_days y m = Inr (spec_month_length y m)"
    using assms(7,8) len by (simp add: monthrange_days_def)
  have e: "mk_datetime y m (spec_month_length y m) 23 59 59 = Inr \<lparr>dt_year = y, dt_month = m, dt_day = spec_month_length y m,
                  dt_hour = 23, dt_minute = 59, dt_second = 59\<rparr>"
    using assms(5-8) b len by (simp add: mk_datetime_def c_int_def)
  show ?thesis
    unfolding get_month_range_def sp by (simp add: assms(1,2) s l e)
qed

lemma month_range_covers:
  assumes "1 \<le> dt_day d" "dt_day d \<le> L"
      and "0 \<le> dt_hour d" "dt_hour d \<le> 23" "0 \<le> dt_minute d" "dt_minute d \<le> 59"
      and "0 \<le> dt_second d" "dt_second d \<le> 59"
  shows "(dt_le \<lparr>dt_year = y, dt_month = m, dt_day = 1, dt_hour = 0, dt_minute = 0, dt_second = 0\<rparr> d
          \<and> dt_le d \<lparr>dt_year = y, dt_month = m, dt_day = L, dt_hour = 23, dt_minute = 59, dt_second = 59\<rparr>)
         \<longleftrightarrow> (dt_year d = y \<and> dt_month d = m)"
  using assms by (auto simp: dt_le_def dt_key_def less_eq_prod_def less_prod_def)

lemma feb_2024:
  "get_month_range ''2024-02'' =
     Inr (Some (\<lparr>dt_year = 2024, dt_month = 2, dt_day = 1, dt_hour = 0, dt_minute = 0, dt_second = 0\<rparr>,
                \<lparr>dt_year = 2024, dt_month = 2, dt_day = 29, dt_hour = 23, dt_minute = 59, dt_second = 59\<rparr>))"
  by code_simp

text \<open>
  Claim C8. For a month string made of a year part and a month part that \<^verbatim>\<open>int\<close>
  reads as a year in 1..9999 and a month in 1..12, \<^verbatim>\<open>get_month_range\<close> returns the
  first day of the month at 00:00:00 and its last day at 23:59:59, the last day being the
  length of the month in the Gregorian calendar (28 to 31 days, leap years included);
  \<^verbatim>\<open>2024-02\<close> gives 2024-02-01 00:00:00 to 2024-02-29 23:59:59; the listing of
  expenses, the summary and the report are computed on the expenses whose date lies
  in this closed range, which for a date of the calendar means: in this year and month.
\<close>

theorem month_range_true_calendar:
  assumes "py_int ys = Inr y" and "py_int ms = Inr m"
      and "CHR ''-'' \<notin> set ys" and "CHR ''-'' \<notin> set ms"
      and "1 \<le> y" and "y \<le> 9999" and "1 \<le> m" and "m \<le> 12"
      and "month = ys @ ''-'' @ ms"
      and "first = \<lparr>dt_year = y, dt_month = m, dt_day = 1,
                     dt_hour = 0, dt_minute = 0, dt_second = 0\<rparr>"
      and "final = \<lparr>dt_year = y, dt_month = m, dt_day = spec_month_length y m,
                     dt_hour = 23, dt_minute = 59, dt_second = 59\<rparr>"
  shows "get_month_range month = Inr (Some (first, final))
       \<and> 28 \<le> spec_month_length y m \<and> spec_month_length y m \<le> 31
       \<and> get_month_range ''2024-02'' =
           Inr (Some (\<lparr>dt_year = 2024, dt_month = 2, dt_day = 1,
                        dt_hour = 0, dt_minute = 0, dt_second = 0\<rparr>,
                      \<lparr>dt_year = 2024, dt_month = 2, dt_day = 29,
                        dt_hour = 23, dt_minute = 59, dt_second = 59\<rparr>))
       \<and> get_expenses db u (Some month) cur =
           (200, ExpenseList
                   (order_by_date_desc (filter (in_range first final) (expenses (db u))))
                   month
                   (length (filter (in_range first final) (expenses (db u)))))
       \<and> get_summary db u month =
           (case compute_summary month (filter (in_range first final) (expenses (db u)))
                   (budgets_where_month month (budgets (db u))) of
              Inl e \<Rightarrow> (500, Error ''Failed to generate summary'')
            | Inr sm \<Rightarrow> (200, SummaryBody sm))
       \<and> get_report db u month =
           (case compute_report month (filter (in_range first final) (expenses (db u)))
                   (budgets_where_month month (budgets (db u))) of
              Inl e \<Rightarrow> (500, Error ''Failed to generate report'')
            | Inr rp \<Rightarrow> (200, ReportBody rp))
       \<and> (\<forall>e d. e_date e = Some d
              \<and> 1 \<le> dt_day d \<and> dt_day d \<le> spec_month_length (dt_year d) (dt_month d)
              \<and> 0 \<le> dt_hour d \<and> dt_hour d \<le> 23 \<and> 0 \<le> dt_minute d \<and> dt_minute d \<le> 59
              \<and> 0 \<le> dt_second d \<and> dt_second d \<le> 59
            \<longrightarrow> (in_range first final e \<longleftrightarrow> dt_year d = y \<and> dt_month d = m))"
proof -
  have r: "get_month_range month = Inr (Some (first, final))"
    unfolding assms(9-11) using assms(1-8) by (rule get_month_range_parts)
  have len_sort: "\<And>xs. length (order_by_date_desc xs) = length xs"
    by (simp add: order_by_date_desc_def)
  have ex: "get_expenses db u (Some month) cur =
           (200, ExpenseList
                   (order_by_date_desc (filter (in_range first final) (expenses (db u))))
                   month
                   (length (filter (in_range first final) (expenses (db u)))))"
    by (simp add: get_expenses_def r expenses_in_range_def len_sort)
  have sm: "get_summary db u month =
           (case compute_summary month (filter (in_range first final) (expenses (db u)))
                   (budgets_where_month month (budgets (db u))) of
              Inl e \<Rightarrow> (500, Error ''Failed to generate summary'')
            | Inr sm \<Rightarrow> (200, SummaryBody sm))"
    by (simp add: get_summary_def r expenses_in_range_def)
  have rp: "get_report db u month =
           (case compute_report month (filter (in_range first final) (expenses (db u)))
                   (budgets_where_month month (budgets (db u))) of
              Inl e \<Rightarrow> (500, Error ''Failed to generate report'')
            | Inr rp \<Rightarrow> (200, ReportBody rp))"
    by (simp add: get_report_def r expenses_in_range_def)
  have cov: "\<forall>e d. e_date e = Some d
              \<and> 1 \<le> dt_day d \<and> dt_day d \<le> spec_month_length (dt_year d) (dt_month d)
              \<and> 0 \<le> dt_hour d \<and> dt_hour d \<le> 23 \<and> 0 \<le> dt_minute d \<and> dt_minute d \<le> 59
              \<and> 0 \<le> dt_second d \<and> dt_second d \<le> 59
            \<longrightarrow> (in_range first final e \<longleftrightarrow> dt_year d = y \<and> dt_month d = m)"
  proof (intro allI impI)
    fix e :: expense_doc and d :: datetime
    assume a: "e_date e = Some d
              \<and> 1 \<le> dt_day d \<and> dt_day d \<le> spec_month_length (dt_year d) (dt_month d)
              \<and> 0 \<le> dt_hour d \<and> dt_hour d \<le> 23 \<and> 0 \<le> dt_minute d \<and> dt_minute d \<le> 59
              \<and> 0 \<le> dt_second d \<and> dt_second d \<le> 59"
    show "in_range first final e \<longleftrightarrow> dt_year d = y \<and> dt_month d = m"
    proof
      assume "in_range first final e"
      then have le: "dt_le first d" "dt_le d final"
        using a by (simp_all add: in_range_def)
      then show "dt_year d = y \<and> dt_month d = m"
        unfolding assms(10,11)
        by (auto simp: dt_le_def dt_key_def less_eq_prod_def less_prod_def)
    next
      assume ym: "dt_year d = y \<and> dt_month d = m"
      then have "dt_day d \<le> spec_month_length y m" using a by simp
      then have "dt_le first d \<and> dt_le d final"
        unfolding assms(10,11) using a ym
        by (auto simp: dt_le_def dt_key_def less_eq_prod_def less_prod_def)
      then show "in_range first final e" using a by (simp add: in_range_def)
    qed
  qed
  show ?thesis
    using r spec_month_length_bounds[of y m] feb_2024 ex sm rp cov by blast
qed

theorem month_range_true_calendar_witness:
  "py_int ''1999'' = Inr 1999 \<and> py_int ''12'' = Inr 12
   \<and> get_month_range ''1999-12'' =
       Inr (Some (\<lparr>dt_year = 1999, dt_month = 12, dt_day = 1,
                     dt_hour = 0, dt_minute = 0, dt_second = 0\<rparr>,
                  \<lparr>dt_year = 1999, dt_month = 12, dt_day = 31,
                     dt_hour = 23, dt_minute = 59, dt_second = 59\<rparr>))"
proof -
  have h1: "py_int ''1999'' = Inr 1999" by code_simp
  have h2: "py_int ''12'' = Inr 12" by code_simp
  have h3: "CHR ''-'' \<notin> set ''1999''" by simp
  have h4: "CHR ''-'' \<notin> set ''12''" by simp
  have l: "spec_month_length 1999 12 = 31" by (simp add: spec_month_length_def)
  note t = month_range_true_calendar[OF h1 h2 h3 h4, of "''1999-12''" _ _ "\<lambda>_. \<lparr>budgets = [], expenses = []\<rparr>" "''u''" "''2000-01''", OF _ _ _ _ _ refl refl]
  have "get_month_range ''1999-12'' = Inr (Some (\<lparr>dt_year = 1999, dt_month = 12, dt_day = 1,
                     dt_hour = 0, dt_minute = 0, dt_second = 0\<rparr>,
                  \<lparr>dt_year = 1999, dt_month = 12, dt_day = spec_month_length 1999 12,
                     dt_hour = 23, dt_minute = 59, dt_second = 59\<rparr>))"
    using t by simp
  then show ?thesis using h1 h2 l by simp
qed

subsection \<open>The auth gate\<close>

lemma bearer_prefix: "startswith (''Bearer '' @ t) ''Bearer '' \<and> drop 7 (''Bearer '' @ t) = t"
  by (simp add: startswith_def)

text \<open>
  Claim C9. On a protected route: a missing or empty Authorization header gives 401; the
  header is verified after an optional \<^verbatim>\<open>Bearer \<close> prefix is removed, and a failure
  of the verification, whatever the exception, gives 401; a verified identity whose
  \<open>uid\<close> differs from the user id of the path gives 403; when the two agree the result is
  the wrapped handler's, run on the request with the verified identity attached. In the
  three error cases the result does not depend on the handler and the state is unchanged.
  The user id of a route is never empty (the path converter matches one character at
  least), which the 403 case assumes.
\<close>

theorem auth_gate:
  "(rq_authorization req = None \<or> rq_authorization req = Some []
      \<longrightarrow> require_auth v f req st = ((401, Error ''Authorization header missing''), st))
   \<and> verify_firebase_token v (''Bearer '' @ t) = (case v t of Inl x \<Rightarrow> None | Inr c \<Rightarrow> Some c)
   \<and> (\<not> startswith t ''Bearer ''
      \<longrightarrow> verify_firebase_token v t = (case v t of Inl x \<Rightarrow> None | Inr c \<Rightarrow> Some c))
   \<and> (rq_authorization req = Some h \<and> h \<noteq> [] \<and> verify_firebase_token v h = None
      \<longrightarrow> require_auth v f req st = ((401, Error ''Invalid or expired token''), st))
   \<and> (rq_authorization req = Some h \<and> h \<noteq> [] \<and> verify_firebase_token v h = Some tok
       \<and> rq_user_id req = Some user_id \<and> user_id \<noteq> [] \<and> user_id \<noteq> uid tok
      \<longrightarrow> require_auth v f req st = ((403, Error ''Unauthorized access to user data''), st))
   \<and> (rq_authorization req = Some h \<and> h \<noteq> [] \<and> verify_firebase_token v h = Some tok
       \<and> rq_user_id req = Some (uid tok)
      \<longrightarrow> require_auth v f req st = f (req\<lparr>rq_user := Some tok\<rparr>) st)"
proof -
  have a: "rq_authorization req = None \<or> rq_authorization req = Some []
      \<longrightarrow> require_auth v f req st = ((401, Error ''Authorization header missing''), st)"
    by (auto simp: require_auth_def)
  have b: "verify_firebase_token v (''Bearer '' @ t) = (case v t of Inl x \<Rightarrow> None | Inr c \<Rightarrow> Some c)"
    unfolding verify_firebase_token_def Let_def using bearer_prefix[of t] by simp
  have c: "\<not> startswith t ''Bearer ''
      \<longrightarrow> verify_firebase_token v t = (case v t of Inl x \<Rightarrow> None | Inr c \<Rightarrow> Some c)"
    by (simp add: verify_firebase_token_def)
  have d: "rq_authorization req = Some h \<and> h \<noteq> [] \<and> verify_firebase_token v h = None
      \<longrightarrow> require_auth v f req st = ((401, Error ''Invalid or expired token''), st)"
    by (simp add: require_auth_def)
  have e: "rq_authorization req = Some h \<and> h \<noteq> [] \<and> verify_firebase_token v h = Some tok
       \<and> rq_user_id req = Some user_id \<and> user_id \<noteq> [] \<and> user_id \<noteq> uid tok
      \<longrightarrow> require_auth v f req st = ((403, Error ''Unauthorized access to user data''), st)"
    by (simp add: require_auth_def)
  have g: "rq_authorization req = Some h \<and> h \<noteq> [] \<and> verify_firebase_token v h = Some tok
       \<and> rq_user_id req = Some (uid tok)
      \<longrightarrow> require_auth v f req st = f (req\<lparr>rq_user := Some tok\<rparr>) st"
    by (simp add: require_auth_def)
  show ?thesis using a b c d e g by blast
qed

theorem auth_gate_witness:
  "require_auth demo_verify demo_handler
     \<lparr>rq_authorization = None, rq_user_id = Some ''alice'', rq_user = None\<rparr> (0::nat)
     = ((401, Error ''Authorization header missing''), 0)
   \<and> require_auth demo_verify demo_handler
     \<lparr>rq_authorization = Some ''Bearer bad'', rq_user_id = Some ''alice'', rq_user = None\<rparr> (0::nat)
     = ((401, Error ''Invalid or expired token''), 0)
   \<and> require_auth demo_verify demo_handler
     \<lparr>rq_authorization = Some ''Bearer good'', rq_user_id = Some ''bob'', rq_user = None\<rparr> (0::nat)
     = ((403, Error ''Unauthorized access to user data''), 0)
   \<and> require_auth demo_verify demo_handler
     \<lparr>rq_authorization = Some ''Bearer good'', rq_user_id = Some ''alice'', rq_user = None\<rparr> (0::nat)
     = ((200, Message ''alice''), 1)
   \<and> verify_firebase_token demo_verify ''good'' = Some \<lparr>uid = ''alice''\<rparr>"
proof -
  note gate = auth_gate[where v = demo_verify and f = demo_handler and st = "0::nat"]
  have bad: "verify_firebase_token demo_verify ''Bearer bad'' = None"
    using gate[where t = "''bad''"] by (simp add: demo_verify_def)
  have good: "verify_firebase_token demo_verify ''Bearer good'' = Some \<lparr>uid = ''alice''\<rparr>"
    using gate[where t = "''good''"] by (simp add: demo_verify_def)
  have plain: "verify_firebase_token demo_verify ''good'' = Some \<lparr>uid = ''alice''\<rparr>"
    using gate[where t = "''good''"] by (simp add: demo_verify_def startswith_def)
  have c1: "require_auth demo_verify demo_handler
     \<lparr>rq_authorization = None, rq_user_id = Some ''alice'', rq_user = None\<rparr> (0::nat)
     = ((401, Error ''Authorization header missing''), 0)"
    using gate[where req = "\<lparr>rq_authorization = None, rq_user_id = Some ''alice'', rq_user = None\<rparr>"]
    by simp
  have c2: "require_auth demo_verify demo_handler
     \<lparr>rq_authorization = Some ''Bearer bad'', rq_user_id = Some ''alice'', rq_user = None\<rparr> (0::nat)
     = ((401, Error ''Invalid or expired token''), 0)"
    using gate[where req = "\<lparr>rq_authorization = Some ''Bearer bad'', rq_user_id = Some ''alice'', rq_user = None\<rparr>"
        and h = "''Bearer bad''"] bad by simp
  have c3: "require_auth demo_verify demo_handler
     \<lparr>rq_authorization = Some ''Bearer good'', rq_user_id = Some ''bob'', rq_user = None\<rparr> (0::nat)
     = ((403, Error ''Unauthorized access to user data''), 0)"
    using gate[where req = "\<lparr>rq_authorization = Some ''Bearer good'', rq_user_id = Some ''bob'', rq_user = None\<rparr>"
        and h = "''Bearer good''" and tok = "\<lparr>uid = ''alice''\<rparr>" and user_id = "''bob''"] good
    by simp
  have c4: "require_auth demo_verify demo_handler
     \<lparr>rq_authorization = Some ''Bearer good'', rq_user_id = Some ''alice'', rq_user = None\<rparr> (0::nat)
     = ((200, Message ''alice''), 1)"
    using gate[where req = "\<lparr>rq_authorization = Some ''Bearer good'', rq_user_id = Some ''alice'', rq_user = None\<rparr>"
        and h = "''Bearer good''" and tok = "\<lparr>uid = ''alice''\<rparr>"] good
    by (simp add: demo_handler_def)
  show ?thesis using c1 c2 c3 c4 plain by blast
qed

subsection \<open>Budget creation\<close>

lemma getitem_obj:
  assumes "py_getitem data k = Inr v"
  obtains kvs where "data = JObj kvs" "obj_get kvs k = Some v" "kvs \<noteq> []"
proof (cases data)
  case (JObj kvs)
  with assms have "obj_get kvs k = Some v" by (simp split: option.splits)
  moreover from this have "kvs \<noteq> []" by (auto simp: obj_get_def)
  ultimately show ?thesis using JObj that by blast
qed (use assms in simp_all)

lemma getitem_in: "py_getitem data k = Inr v \<Longrightarrow> py_in k data = Inr True"
  by (erule getitem_obj) simp

lemma getitem_truthy: "py_getitem data k = Inr v \<Longrightarrow> py_truthy data"
  by (erule getitem_obj) simp

lemma in_obj_getitem:
  "py_in k (JObj kvs) = Inr True \<Longrightarrow> \<exists>v. py_getitem (JObj kvs) k = Inr v"
  by (cases "obj_get kvs k") simp_all

lemma float_of_str_exc: "float_of_str s = Inl e \<Longrightarrow> e = ValueError"
  by (auto simp: float_of_str_def Let_def split: prod.splits if_splits option.splits)

lemma py_float_exc:
  "py_float v = Inl e \<Longrightarrow> e = ValueError \<or> e = TypeError \<or> e = OverflowError"
  by (cases v) (auto dest: float_of_str_exc split: pyfloat.splits)

lemma validate_amount_cases:
  assumes "py_getitem data ''amount'' = Inr av"
  shows "validate_amount data =
           (case py_float av of
              Inl e \<Rightarrow> if e = OverflowError then Raise OverflowError
                       else Respond (400, Error ''Invalid amount format'')
            | Inr a \<Rightarrow> if ple a (Fin 0) then Respond (400, Error ''Amount must be positive'')
                       else Continue a)"
  using assms py_float_exc[of av]
  by (auto simp: validate_amount_def split: sum.splits)

lemma strip_Nil: "strip [] = []"
  by (simp add: strip_def)

lemma validate_month_str:
  assumes "py_getitem data ''month'' = Inr (JStr ms)"
  shows "validate_month data =
           (if strip ms = [] \<or> length (split_on CHR ''-'' (strip ms)) \<noteq> 2
            then Respond (400, Error ''Invalid month format. Use YYYY-MM'')
            else Continue (strip ms))"
  using assms by (simp add: validate_month_def)

lemma validate_category_str:
  assumes "py_getitem data ''category'' = Inr (JStr cs)"
  shows "validate_category msg data =
           (if strip cs = [] then Respond (400, Error msg) else Continue (strip cs))"
  using assms by (simp add: validate_category_def)

lemma require_truthy_three:
  assumes "py_getitem data a = Inr av" "py_getitem data b = Inr bv" "py_getitem data c = Inr cv"
  shows "require_truthy data [a, b, c] =
           (if \<not> py_truthy av then Respond (400, Error (''Missing required field: '' @ a))
            else if \<not> py_truthy bv then Respond (400, Error (''Missing required field: '' @ b))
            else if \<not> py_truthy cv then Respond (400, Error (''Missing required field: '' @ c))
            else Continue ())"
  using assms by (simp add: getitem_in)



text \<open>The outcome of \<^verbatim>\<open>set_budget\<close> when the three fields are present.\<close>

lemma set_budget_fields:
  assumes "py_getitem data ''amount'' = Inr av"
      and "py_getitem data ''month'' = Inr (JStr ms)"
      and "py_getitem data ''category'' = Inr (JStr cs)"
  shows "set_budget now new_id db user_id data =
     (if \<not> py_truthy av then ((400, Error ''Missing required field: amount''), db)
      else if ms = [] then ((400, Error ''Missing required field: month''), db)
      else if cs = [] then ((400, Error ''Missing required field: category''), db)
      else (case py_float av of
              Inl e \<Rightarrow>
                if e = OverflowError
                then ((500, ErrorExc ''Failed to set budget: '' OverflowError), db)
                else ((400, Error ''Invalid amount format''), db)
            | Inr amount \<Rightarrow>
                if ple amount (Fin 0) then ((400, Error ''Amount must be positive''), db)
                else if strip ms = [] \<or> length (split_on CHR ''-'' (strip ms)) \<noteq> 2
                  then ((400, Error ''Invalid month format. Use YYYY-MM''), db)
                else if strip cs = [] then ((400, Error ''Category is required''), db)
                else if budgets_where_month_category (strip ms) (strip cs)
                          (budgets (db user_id)) \<noteq> []
                  then ((400, Error ''Budget already exists for this category and month''), db)
                else ((201, BudgetCreated
                         \<lparr>b_id = new_id, b_amount = Some amount, b_month = Some (strip ms),
                          b_category = Some (strip cs), b_created_at = Some now,
                          b_updated_at = Some now\<rparr>),
                      db(user_id := (db user_id)
                           \<lparr>budgets := budgets (db user_id) @
                              [\<lparr>b_id = new_id, b_amount = Some amount,
                                b_month = Some (strip ms), b_category = Some (strip cs),
                                b_created_at = Some now, b_updated_at = Some now\<rparr>]\<rparr>))))"
proof -
  have t: "py_truthy data" using assms(1) by (rule getitem_truthy)
  note req = require_truthy_three[OF assms]
  show ?thesis
  proof (cases "py_truthy av \<and> ms \<noteq> [] \<and> cs \<noteq> []")
    case False
    then show ?thesis
      unfolding set_budget_def by (auto simp: t req simp del: require_truthy.simps)
  next
    case True
    then have r: "require_truthy data [''amount'', ''month'', ''category''] = Continue ()"
      by (simp add: req del: require_truthy.simps)
    show ?thesis
    proof (cases "py_float av")
      case (Inl e)
      then have "validate_amount data =
                   (if e = OverflowError then Raise OverflowError
                    else Respond (400, Error ''Invalid amount format''))"
        by (simp add: validate_amount_cases[OF assms(1)])
      then show ?thesis
        unfolding set_budget_def using True Inl by (simp add: t r del: require_truthy.simps)
    next
      case (Inr amount)
      show ?thesis
      proof (cases "ple amount (Fin 0)")
        case True
        then have "validate_amount data = Respond (400, Error ''Amount must be positive'')"
          by (simp add: validate_amount_cases[OF assms(1)] Inr)
        then show ?thesis
          unfolding set_budget_def using \<open>py_truthy av \<and> ms \<noteq> [] \<and> cs \<noteq> []\<close> Inr True
          by (simp add: t r del: require_truthy.simps)
      next
        case False
        then have a: "validate_amount data = Continue amount"
          by (simp add: validate_amount_cases[OF assms(1)] Inr)
        show ?thesis
        proof (cases "strip ms = [] \<or> length (split_on CHR ''-'' (strip ms)) \<noteq> 2")
          case True
          then have "validate_month data = Respond (400, Error ''Invalid month format. Use YYYY-MM'')"
            by (simp add: validate_month_str[OF assms(2)])
          then show ?thesis
            unfolding set_budget_def
            using \<open>py_truthy av \<and> ms \<noteq> [] \<and> cs \<noteq> []\<close> Inr \<open>\<not> ple amount (Fin 0)\<close> True
            by (simp add: t r a del: require_truthy.simps)
        next
          case mok: False
          then have m: "validate_month data = Continue (strip ms)"
            by (simp add: validate_month_str[OF assms(2)])
          show ?thesis
          proof (cases "strip cs = []")
            case True
            then have "validate_category ''Category is required'' data =
                         Respond (400, Error ''Category is required'')"
              by (simp add: validate_category_str[OF assms(3)])
            then show ?thesis
              unfolding set_budget_def
              using \<open>py_truthy av \<and> ms \<noteq> [] \<and> cs \<noteq> []\<close> Inr \<open>\<not> ple amount (Fin 0)\<close> mok True
              by (simp add: t r a m del: require_truthy.simps)
          next
            case cok: False
            then have c: "validate_category ''Category is required'' data = Continue (strip cs)"
              by (simp add: validate_category_str[OF assms(3)])
            show ?thesis
              unfolding set_budget_def
              using \<open>py_truthy av \<and> ms \<noteq> [] \<and> cs \<noteq> []\<close> Inr \<open>\<not> ple amount (Fin 0)\<close> mok cok
              by (simp add: t r a m c Let_def del: require_truthy.simps)
          qed
        qed
      qed
    qed
  qed
qed


lemma step_bind_Continue:
  "step_bind s f = Continue y \<Longrightarrow> \<exists>x. s = Continue x \<and> f x = Continue y"
  by (cases s) simp_all

lemma validate_month_Continue:
  "validate_month data = Continue m \<Longrightarrow> m \<noteq> [] \<and> length (split_on CHR ''-'' m) = 2"
  by (auto simp: validate_month_def dest!: step_bind_Continue split: if_splits)

lemma set_budget_write:
  assumes "set_budget now new_id db user_id data = (r, db')" and "db' \<noteq> db"
  shows "\<exists>amount month category.
           budgets_where_month_category month category (budgets (db user_id)) = []
         \<and> db' = db(user_id := (db user_id)
                    \<lparr>budgets := budgets (db user_id) @
                       [\<lparr>b_id = new_id, b_amount = Some amount, b_month = Some month,
                         b_category = Some category, b_created_at = Some now,
                         b_updated_at = Some now\<rparr>]\<rparr>)"
proof -
  let ?inner = "\<lambda>amount month category.
             let existing_budgets =
                   budgets_where_month_category month category (budgets (db user_id))
             in if existing_budgets \<noteq> []
                then Respond (400, Error ''Budget already exists for this category and month'')
                else
                  let budget_data =
                        \<lparr>b_id = new_id, b_amount = Some amount, b_month = Some month,
                         b_category = Some category, b_created_at = Some now,
                         b_updated_at = Some now\<rparr>
                  in Continue
                       ((201, BudgetCreated budget_data),
                        db(user_id := (db user_id)
                             \<lparr>budgets := budgets (db user_id) @ [budget_data]\<rparr>))"
  let ?chain = "step_bind (require_truthy data [''amount'', ''month'', ''category'']) (\<lambda>_.
           step_bind (validate_amount data) (\<lambda>amount.
           step_bind (validate_month data) (\<lambda>month.
           step_bind (validate_category ''Category is required'' data) (\<lambda>category.
             ?inner amount month category))))"
  have sb: "set_budget now new_id db user_id data =
          (case (if \<not> py_truthy data then Respond (400, Error ''No data provided'') else ?chain) of
             Raise e \<Rightarrow> ((500, ErrorExc ''Failed to set budget: '' e), db)
           | Respond r \<Rightarrow> (r, db)
           | Continue out \<Rightarrow> out)"
    unfolding set_budget_def ..
  have "?chain = Continue (r, db')"
    using assms unfolding sb by (auto split: if_splits step.splits)
  then obtain amount month category where "?inner amount month category = Continue (r, db')"
    by (blast dest!: step_bind_Continue)
  then show ?thesis
    by (auto simp: Let_def split: if_splits)
qed

text \<open>
  Claim C5. If the store of a user holds a budget with a month and a category, then a
  request to create a budget whose month and category, once trimmed, are these two is
  answered with an error and writes nothing; when the request is otherwise valid
  (amount positive, month of two dash-separated parts, category not empty) the error is
  the duplicate error \<^verbatim>\<open>Budget already exists for this category and month\<close>, with
  status 400. A request that is not valid gets the error of its first invalid field, a
  400, or a 500 when its amount is an integer too large for a float. The check is a
  query of the user's budgets by equality on month and category, made before the write:
  whatever the request, a budget that \<^verbatim>\<open>set_budget\<close> adds to this store does not have
  the month and category of the existing one.
\<close>

theorem duplicate_budget_conflict:
  assumes "b \<in> set (budgets (db user_id))"
      and "b_month b = Some month" and "b_category b = Some category"
      and "py_getitem data ''amount'' = Inr av"
      and "py_getitem data ''month'' = Inr (JStr ms)" and "strip ms = month"
      and "py_getitem data ''category'' = Inr (JStr cs)" and "strip cs = category"
  shows "snd (set_budget now new_id db user_id data) = db
       \<and> (fst (fst (set_budget now new_id db user_id data)) = 400
          \<or> fst (fst (set_budget now new_id db user_id data)) = 500)
       \<and> (py_float av \<noteq> Inl OverflowError
          \<longrightarrow> (\<exists>msg. set_budget now new_id db user_id data = ((400, Error msg), db)))
       \<and> (py_truthy av \<and> (\<exists>a. py_float av = Inr a \<and> \<not> ple a (Fin 0))
            \<and> month \<noteq> [] \<and> length (split_on CHR ''-'' month) = 2 \<and> category \<noteq> []
          \<longrightarrow> set_budget now new_id db user_id data =
                ((400, Error ''Budget already exists for this category and month''), db))
       \<and> (\<forall>other r db'.
             set_budget now new_id db user_id other = (r, db') \<and> db' \<noteq> db
             \<longrightarrow> (\<exists>nb. db' = db(user_id := (db user_id)
                                \<lparr>budgets := budgets (db user_id) @ [nb]\<rparr>)
                      \<and> (b_month nb, b_category nb) \<noteq> (Some month, Some category)))"
proof -
  have ex: "budgets_where_month_category (strip ms) (strip cs) (budgets (db user_id)) \<noteq> []"
    using assms(1,2,3,6,8)
    by (auto simp: budgets_where_month_category_def budgets_where_month_def filter_empty_conv)
  note f = set_budget_fields[OF assms(4,5,7), of now new_id db user_id]
  have p0: "snd (set_budget now new_id db user_id data) = db"
    unfolding f using ex by (simp split: sum.splits)
  have p0': "fst (fst (set_budget now new_id db user_id data)) = 400
          \<or> fst (fst (set_budget now new_id db user_id data)) = 500"
    unfolding f using ex by (simp split: sum.splits)
  have p1: "py_float av \<noteq> Inl OverflowError
          \<longrightarrow> (\<exists>msg. set_budget now new_id db user_id data = ((400, Error msg), db))"
    unfolding f using ex by (simp split: sum.splits)
  have p2: "py_truthy av \<and> (\<exists>a. py_float av = Inr a \<and> \<not> ple a (Fin 0))
            \<and> month \<noteq> [] \<and> length (split_on CHR ''-'' month) = 2 \<and> category \<noteq> []
          \<longrightarrow> set_budget now new_id db user_id data =
                ((400, Error ''Budget already exists for this category and month''), db)"
    unfolding f using ex assms(6,8) by (auto simp: strip_Nil)
  have p3: "\<forall>other r db'.
             set_budget now new_id db user_id other = (r, db') \<and> db' \<noteq> db
             \<longrightarrow> (\<exists>nb. db' = db(user_id := (db user_id)
                                \<lparr>budgets := budgets (db user_id) @ [nb]\<rparr>)
                      \<and> (b_month nb, b_category nb) \<noteq> (Some month, Some category))"
  proof (intro allI impI)
    fix other r db'
    assume a: "set_budget now new_id db user_id other = (r, db') \<and> db' \<noteq> db"
    then obtain amount m c where w:
      "budgets_where_month_category m c (budgets (db user_id)) = []"
      "db' = db(user_id := (db user_id)
                    \<lparr>budgets := budgets (db user_id) @
                       [\<lparr>b_id = new_id, b_amount = Some amount, b_month = Some m,
                         b_category = Some c, b_created_at = Some now,
                         b_updated_at = Some now\<rparr>]\<rparr>)"
      using set_budget_write[of now new_id db user_id other r db'] by auto
    have "\<not> (m = month \<and> c = category)"
      using w(1) assms(1,2,3)
      by (auto simp: budgets_where_month_category_def budgets_where_month_def filter_empty_conv)
    then show "\<exists>nb. db' = db(user_id := (db user_id)
                                \<lparr>budgets := budgets (db user_id) @ [nb]\<rparr>)
                      \<and> (b_month nb, b_category nb) \<noteq> (Some month, Some category)"
      using w(2) by (intro exI[of _ "\<lparr>b_id = new_id, b_amount = Some amount, b_month = Some m,
                         b_category = Some c, b_created_at = Some now,
                         b_updated_at = Some now\<rparr>"]) auto
  qed
  show ?thesis
    by (intro conjI) (rule p0, rule p0', rule p1, rule p2, rule p3)
qed

theorem duplicate_budget_conflict_witness:
  "set_budget demo_now ''b2'' demo_db ''alice'' duplicate_request =
     ((400, Error ''Budget already exists for this category and month''), demo_db)"
proof -
  have h1: "demo_budget ''b1'' ''Food'' 40 \<in> set (budgets (demo_db ''alice''))"
    by (simp add: demo_db_def)
  have h2: "b_month (demo_budget ''b1'' ''Food'' 40) = Some ''2024-01''"
    by (simp add: demo_budget_def)
  have h3: "b_category (demo_budget ''b1'' ''Food'' 40) = Some ''Food''"
    by (simp add: demo_budget_def)
  have h4: "py_getitem duplicate_request ''amount'' = Inr (JInt 50)"
    by (simp add: duplicate_request_def obj_get_def)
  have h5: "py_getitem duplicate_request ''month'' = Inr (JStr '' 2024-01 '')"
    by (simp add: duplicate_request_def obj_get_def)
  have h6: "strip '' 2024-01 '' = ''2024-01''"
    by (simp add: strip_def is_space_def)
  have h7: "py_getitem duplicate_request ''category'' = Inr (JStr ''Food'')"
    by (simp add: duplicate_request_def obj_get_def)
  have h8: "strip ''Food'' = ''Food''"
    by (simp add: strip_def is_space_def)
  have fl: "py_float (JInt 50) = Inr (Fin 50)"
    by code_simp
  have v: "py_truthy (JInt 50) \<and> (\<exists>a. py_float (JInt 50) = Inr a \<and> \<not> ple a (Fin 0))
           \<and> ''2024-01'' \<noteq> [] \<and> length (split_on CHR ''-'' ''2024-01'') = 2 \<and> ''Food'' \<noteq> []"
    unfolding fl by (simp add: ple_def peq_def)
  from duplicate_budget_conflict[where db = demo_db and user_id = "''alice''" and now = demo_now
      and new_id = "''b2''", OF h1 h2 h3 h4 h5 h6 h7 h8] v
  show ?thesis by simp
qed

subsection \<open>The summary\<close>




lemma ple_cases: "ple a (Fin 0) \<longleftrightarrow> plt a (Fin 0) \<or> a = Fin 0"
  by (cases a) (auto simp: ple_def peq_def)
















end
